theory Spec2Isabelle
  imports Complex_Main "HOL-Library.Char_ord" "HOL-Library.List_Lexorder"
    "HOL-Library.Product_Lexorder"
begin

section \<open>Strings, numbers and object ids as the routes use them\<close>

text \<open>
  JavaScript strings are modelled as \<^typ>\<open>string\<close>, one character for each code unit, the
  code units being those below 256. Letter case and digits are those of ASCII; white space is
  that of JavaScript in this range. An absent query or body field (\<^verbatim>\<open>undefined\<close>) is
  \<^term>\<open>None\<close>.
\<close>

definition code :: "char \<Rightarrow> nat" where
  "code c = of_char c"

definition is_digit :: "char \<Rightarrow> bool" where
  "is_digit c = (48 \<le> code c \<and> code c \<le> 57)"

definition is_upper :: "char \<Rightarrow> bool" where
  "is_upper c = (65 \<le> code c \<and> code c \<le> 90)"

definition is_lower :: "char \<Rightarrow> bool" where
  "is_lower c = (97 \<le> code c \<and> code c \<le> 122)"

definition to_lower :: "char \<Rightarrow> char" where
  "to_lower c = (if is_upper c then char_of (code c + 32) else c)"

definition lower :: "string \<Rightarrow> string" where
  "lower s = map to_lower s"

text \<open>
  White space as \<^verbatim>\<open>\s\<close>, \<^verbatim>\<open>trim\<close> and \<^verbatim>\<open>parseInt\<close> know it: tab, line feed, vertical tab,
  form feed, carriage return, space and the no-break space \<open>U+00A0\<close>.
\<close>

definition is_space :: "char \<Rightarrow> bool" where
  "is_space c = (code c = 32 \<or> (9 \<le> code c \<and> code c \<le> 13) \<or> code c = 160)"

definition trim :: "string \<Rightarrow> string" where
  "trim s = rev (dropWhile is_space (rev (dropWhile is_space s)))"

text \<open>The truthiness of an optional string: \<^verbatim>\<open>undefined\<close> and \<^verbatim>\<open>''\<close> are falsy.\<close>

fun truthy :: "string option \<Rightarrow> bool" where
  "truthy None = False"
| "truthy (Some s) = (s \<noteq> [])"

text \<open>
  The value of a digit in radixes up to 36, as \<^verbatim>\<open>parseInt\<close> reads it.
\<close>

definition digit_val :: "char \<Rightarrow> nat option" where
  "digit_val c =
     (if is_digit c then Some (code c - 48)
      else if is_lower c then Some (code c - 87)
      else if is_upper c then Some (code c - 55)
      else None)"

definition is_radix_digit :: "nat \<Rightarrow> char \<Rightarrow> bool" where
  "is_radix_digit r c = (case digit_val c of None \<Rightarrow> False | Some d \<Rightarrow> d < r)"

definition radix_value :: "nat \<Rightarrow> string \<Rightarrow> nat" where
  "radix_value r ds = foldl (\<lambda>acc c. acc * r + (case digit_val c of None \<Rightarrow> 0 | Some d \<Rightarrow> d)) 0 ds"

text \<open>
  \<^verbatim>\<open>parseInt(s)\<close> with no radix argument: leading white space is skipped, a sign is read, a
  \<^verbatim>\<open>0x\<close> prefix selects radix 16, the longest prefix of digits is converted and the rest of
  the string is ignored. \<^term>\<open>None\<close> is \<^verbatim>\<open>NaN\<close>. The result is the exact integer. A
  JavaScript number is a double: it holds every integer up to \<open>2 ^ 53\<close> in magnitude
  (\<open>exact_number\<close>) and rounds beyond, so the result of \<^verbatim>\<open>parseInt\<close>, and of the arithmetic
  on it, is the one of this model as long as the exact values stay in that range. The
  theorems that read a parsed number carry this bound.
\<close>

definition exact_number :: "int \<Rightarrow> bool" where
  "exact_number n = (\<bar>n\<bar> \<le> 2 ^ 53)"

definition strip_sign :: "string \<Rightarrow> bool \<times> string" where
  "strip_sign s =
     (case s of
        c # cs \<Rightarrow> if c = CHR ''-'' then (True, cs) else if c = CHR ''+'' then (False, cs) else (False, s)
      | [] \<Rightarrow> (False, s))"

definition strip_hex_prefix :: "string \<Rightarrow> nat \<times> string" where
  "strip_hex_prefix s =
     (case s of
        c # d # cs \<Rightarrow> if c = CHR ''0'' \<and> (d = CHR ''x'' \<or> d = CHR ''X'') then (16, cs) else (10, s)
      | _ \<Rightarrow> (10, s))"

definition parseInt :: "string option \<Rightarrow> int option" where
  "parseInt v =
     (case v of
        None \<Rightarrow> None
      | Some s \<Rightarrow>
          (let (neg, s1) = strip_sign (dropWhile is_space s);
               (r, s2) = strip_hex_prefix s1;
               z = takeWhile (is_radix_digit r) s2
           in if z = [] then None
              else Some ((if neg then - 1 else 1) * int (radix_value r z))))"

text \<open>\<^verbatim>\<open>x || d\<close> on a number: \<^verbatim>\<open>NaN\<close> and \<^verbatim>\<open>0\<close> are falsy.\<close>

definition or_default :: "int option \<Rightarrow> int \<Rightarrow> int" where
  "or_default x d = (case x of None \<Rightarrow> d | Some n \<Rightarrow> if n = 0 then d else n)"

text \<open>
  An object id is twelve bytes, written as 24 hexadecimal digits; it is modelled by its value.
  \<^verbatim>\<open>/^[0-9a-fA-F]{24}$/.test(identifier)\<close> is \<open>isObjectId\<close>; the store's cast of a string to
  an object id accepts the same strings and fails on the others.
\<close>

type_synonym oid = nat

definition is_hex :: "char \<Rightarrow> bool" where
  "is_hex c = (is_digit c \<or> (97 \<le> code c \<and> code c \<le> 102) \<or> (65 \<le> code c \<and> code c \<le> 70))"

definition isObjectId :: "string \<Rightarrow> bool" where
  "isObjectId s = (length s = 24 \<and> list_all is_hex s)"

definition oid_of_hex :: "string \<Rightarrow> oid" where
  "oid_of_hex s = radix_value 16 s"

definition cast_oid :: "string \<Rightarrow> oid option" where
  "cast_oid s = (if isObjectId s then Some (oid_of_hex s) else None)"

section \<open>Projects\<close>

record project =
  p_id :: oid
  p_title :: string
  p_slug :: string
  p_category :: string
  p_isFeatured :: bool
  p_isPublished :: bool
  p_priority :: int
  p_createdAt :: int

text \<open>The query string of \<^verbatim>\<open>GET /projects\<close>.\<close>

record projects_query =
  q_page :: "string option"
  q_limit :: "string option"
  q_category :: "string option"
  q_featured :: "string option"
  q_search :: "string option"
  q_exclude :: "string option"

text \<open>The filter object the handler builds (\<^verbatim>\<open>let query = { isPublished: true }\<close> and on).\<close>

record project_filter =
  f_isPublished :: "bool option"
  f_isFeatured :: "bool option"
  f_category :: "string option"
  f_text :: "string option"
  f_id_ne :: "string option"
  f_id :: "oid option"
  f_slug :: "string option"

definition no_filter :: project_filter where
  "no_filter = \<lparr>f_isPublished = None, f_isFeatured = None, f_category = None, f_text = None,
     f_id_ne = None, f_id = None, f_slug = None\<rparr>"

definition build_query :: "projects_query \<Rightarrow> project_filter" where
  "build_query q =
     (let query = no_filter\<lparr>f_isPublished := Some True\<rparr>;
          query = (if truthy (q_category q) then query\<lparr>f_category := q_category q\<rparr> else query);
          query = (if q_featured q = Some ''true'' then query\<lparr>f_isFeatured := Some True\<rparr> else query);
          query = (if truthy (q_search q) then query\<lparr>f_text := q_search q\<rparr> else query);
          query = (if truthy (q_exclude q) then query\<lparr>f_id_ne := q_exclude q\<rparr> else query)
      in query)"

datatype store_error = CastError | BadValue | DuplicateKey | ValidationError

text \<open>
  The document store is a list of documents in insertion order. A filter matches a document
  when every constraint that is present holds. The full-text search of the store is the
  parameter \<open>tm\<close> (\<open>text_match\<close> of the environment below). A string that is not an
  object id cannot be compared with \<^verbatim>\<open>_id\<close>: the query fails with a cast error.
\<close>

definition opt_holds :: "'a option \<Rightarrow> ('a \<Rightarrow> bool) \<Rightarrow> bool" where
  "opt_holds c P = (case c of None \<Rightarrow> True | Some v \<Rightarrow> P v)"

definition project_matches :: "(string \<Rightarrow> project \<Rightarrow> bool) \<Rightarrow> project_filter \<Rightarrow> oid option \<Rightarrow> project \<Rightarrow> bool" where
  "project_matches tm f ne p =
     (opt_holds (f_isPublished f) (\<lambda>b. p_isPublished p = b) \<and>
      opt_holds (f_isFeatured f) (\<lambda>b. p_isFeatured p = b) \<and>
      opt_holds (f_category f) (\<lambda>c. p_category p = c) \<and>
      opt_holds (f_text f) (\<lambda>s. tm s p) \<and>
      opt_holds ne (\<lambda>i. p_id p \<noteq> i) \<and>
      opt_holds (f_id f) (\<lambda>i. p_id p = i) \<and>
      opt_holds (f_slug f) (\<lambda>s. p_slug p = s))"

definition project_find :: "(string \<Rightarrow> project \<Rightarrow> bool) \<Rightarrow> project_filter \<Rightarrow> project list \<Rightarrow> store_error + project list" where
  "project_find tm f ps =
     (case f_id_ne f of
        None \<Rightarrow> Inr (filter (project_matches tm f None) ps)
      | Some e \<Rightarrow>
          (case cast_oid e of
             None \<Rightarrow> Inl CastError
           | Some i \<Rightarrow> Inr (filter (project_matches tm f (Some i)) ps)))"

text \<open>\<^verbatim>\<open>.sort({ priority: -1, createdAt: -1 })\<close>: priority descending, then recency descending.\<close>

definition sort_projects :: "project list \<Rightarrow> project list" where
  "sort_projects ps = sort_key (\<lambda>p. (- p_priority p, - p_createdAt p)) ps"

text \<open>
  \<^verbatim>\<open>.skip(n)\<close> and \<^verbatim>\<open>.limit(n)\<close>: the store refuses a negative skip; a limit of zero is
  no limit and a negative limit counts as its absolute value.
\<close>

definition skip_docs :: "int \<Rightarrow> 'a list \<Rightarrow> store_error + 'a list" where
  "skip_docs n xs = (if n < 0 then Inl BadValue else Inr (drop (nat n) xs))"

definition limit_docs :: "int \<Rightarrow> 'a list \<Rightarrow> 'a list" where
  "limit_docs n xs = (if n = 0 then xs else take (nat \<bar>n\<bar>) xs)"

text \<open>
  Saving a document: the schema's validators and unique indexes belong to the model files,
  which are parameters here (\<open>valid\<close>, and \<open>collide\<close> for two documents that a unique index
  keeps apart). \<open>others\<close> are the documents already stored, the saved one excluded.
\<close>

definition check_save :: "('d \<Rightarrow> bool) \<Rightarrow> ('d \<Rightarrow> 'd \<Rightarrow> bool) \<Rightarrow> 'd list \<Rightarrow> 'd \<Rightarrow> store_error option" where
  "check_save valid collide others d =
     (if \<not> valid d then Some ValidationError
      else if list_ex (collide d) others then Some DuplicateKey
      else None)"

text \<open>A collection: its documents, and the id that the next new document receives.\<close>

record 'd store =
  docs :: "'d list"
  next_oid :: oid

definition insert_doc :: "'d \<Rightarrow> 'd store \<Rightarrow> 'd store" where
  "insert_doc d st = st\<lparr>docs := docs st @ [d], next_oid := Suc (next_oid st)\<rparr>"

section \<open>Skills\<close>

record skill =
  s_id :: oid
  s_name :: string
  s_category :: string
  s_level :: string
  s_proficiency :: int
  s_icon :: string
  s_color :: string
  s_description :: string
  s_yearsOfExperience :: int
  s_isVisible :: bool
  s_order :: int

text \<open>
  A request body for a skill: each field is present with a value of its JSON type, or absent.
\<close>

record skill_body =
  b_name :: "string option"
  b_category :: "string option"
  b_level :: "string option"
  b_proficiency :: "int option"
  b_icon :: "string option"
  b_color :: "string option"
  b_description :: "string option"
  b_yearsOfExperience :: "int option"
  b_isVisible :: "bool option"
  b_order :: "int option"

section \<open>Requests, responses and the environment of the routers\<close>

type_synonym verror = "string \<times> string"

record pagination =
  pg_page :: int
  pg_limit :: int
  pg_total :: int
  pg_pages :: int

datatype body =
    Message string
  | Errors "verror list"
  | ProjectBody project
  | ProjectsBody "project list"
  | ProjectsPage "project list" pagination
  | SkillBody skill
  | SkillsBody "skill list"
  | CategoriesBody "string list"
  | InvalidSkill string skill_body

record response =
  res_status :: nat
  res_body :: body

definition json :: "body \<Rightarrow> response" where
  "json b = \<lparr>res_status = 200, res_body = b\<rparr>"

definition status_json :: "nat \<Rightarrow> body \<Rightarrow> response" where
  "status_json n b = \<lparr>res_status = n, res_body = b\<rparr>"

record identity =
  u_id :: oid
  u_role :: string

text \<open>
  What the routers require from files that are not part of the sources, and from the store:
  \<^item> \<open>verify\<close>: the token check of the auth middleware, from the value of the
    Authorization header to the identity it resolves to, if any;
  \<^item> \<open>validateProject\<close>, \<open>validateId\<close>: the errors that these rule lists of the validation
    middleware record, which the handlers read with \<^verbatim>\<open>validationResult\<close>;
  \<^item> \<open>validatePagination\<close>: the errors with which this middleware answers a request itself,
    or \<^term>\<open>None\<close> when it passes the request on;
  \<^item> \<open>text_match\<close>: the full-text index of the project collection;
  \<^item> \<open>project_valid\<close>, \<open>project_collide\<close>, \<open>skill_defaults\<close>, \<open>skill_valid\<close>,
    \<open>skill_collide\<close>: the validators, unique indexes and defaults of the two schemas;
  \<^item> \<open>regex_other\<close>: the regular expression engine on patterns outside the fragment
    modelled below (\<^term>\<open>None\<close> when the pattern does not compile).
\<close>

record env =
  verify :: "string \<Rightarrow> identity option"
  validateProject :: "project \<Rightarrow> verror list"
  validateId :: "string \<Rightarrow> verror list"
  validatePagination :: "projects_query \<Rightarrow> verror list option"
  text_match :: "string \<Rightarrow> project \<Rightarrow> bool"
  project_valid :: "project \<Rightarrow> bool"
  project_collide :: "project \<Rightarrow> project \<Rightarrow> bool"
  skill_defaults :: skill
  skill_valid :: "skill \<Rightarrow> bool"
  skill_collide :: "skill \<Rightarrow> skill \<Rightarrow> bool"
  regex_other :: "string \<Rightarrow> (string \<Rightarrow> bool) option"

text \<open>
  Modelled from the spec: the auth middleware (\<^verbatim>\<open>server/middleware/auth.js\<close> is not among the
  sources). A request without a token fails as unauthenticated, and so does one whose token
  is malformed, expired or wrongly signed; otherwise the resolved identity, with its role,
  is attached to the request and the chain continues. The middleware does not look at the
  role. The spec fixes the status and that the body carries a message, not the wording of
  the message.
\<close>

definition auth :: "env \<Rightarrow> string option \<Rightarrow> response + identity" where
  "auth env authorization =
     (case authorization of
        None \<Rightarrow> Inl (status_json 401 (Message ''No token, authorization denied''))
      | Some h \<Rightarrow>
          (case verify env h of
             None \<Rightarrow> Inl (status_json 401 (Message ''Token is not valid''))
           | Some user \<Rightarrow> Inr user))"

definition server_error :: "string \<Rightarrow> response" where
  "server_error m = status_json 500 (Message m)"

section \<open>The project router\<close>

text \<open>
  \<^verbatim>\<open>router.get('/', validatePagination, ...)\<close>. The middleware either answers the request
  itself, with the errors of its rules and the status 400 of every validation answer of the
  routers, or passes it on to the handler; the handler does not read the validation result.
\<close>

definition page_of :: "projects_query \<Rightarrow> int" where
  "page_of q = or_default (parseInt (q_page q)) 1"

definition limit_of :: "projects_query \<Rightarrow> int" where
  "limit_of q = or_default (parseInt (q_limit q)) 10"

text \<open>
  The page and limit that the handler reads are positive, and they and the number of
  skipped documents are within the integers that a JavaScript number holds exactly.
\<close>

definition pagination_in_range :: "projects_query \<Rightarrow> bool" where
  "pagination_in_range q =
     (0 < page_of q \<and> 0 < limit_of q \<and> exact_number (page_of q) \<and> exact_number (limit_of q) \<and>
      exact_number ((page_of q - 1) * limit_of q))"

definition projects_handler :: "env \<Rightarrow> project list \<Rightarrow> projects_query \<Rightarrow> response" where
  "projects_handler env ps q =
     (let page = page_of q;
          limit = limit_of q;
          skip = (page - 1) * limit;
          query = build_query q
      in case project_find (text_match env) query ps of
           Inl e \<Rightarrow> server_error ''Server error''
         | Inr found \<Rightarrow>
             (case skip_docs skip (sort_projects found) of
                Inl e \<Rightarrow> server_error ''Server error''
              | Inr rest \<Rightarrow>
                  (let projects = limit_docs limit rest;
                       total = int (length found)
                   in json (ProjectsPage projects
                        \<lparr>pg_page = page, pg_limit = limit, pg_total = total,
                         pg_pages = \<lceil>real_of_int total / real_of_int limit\<rceil>\<rparr>))))"

definition get_projects :: "env \<Rightarrow> project list \<Rightarrow> projects_query \<Rightarrow> response" where
  "get_projects env ps q =
     (case validatePagination env q of
        Some errors \<Rightarrow> status_json 400 (Errors errors)
      | None \<Rightarrow> projects_handler env ps q)"

text \<open>\<^verbatim>\<open>router.get('/featured', ...)\<close>\<close>

definition get_featured :: "env \<Rightarrow> project list \<Rightarrow> response" where
  "get_featured env ps =
     (case project_find (text_match env)
             (no_filter\<lparr>f_isPublished := Some True, f_isFeatured := Some True\<rparr>) ps of
        Inl e \<Rightarrow> server_error ''Server error''
      | Inr found \<Rightarrow> json (ProjectsBody (limit_docs 6 (sort_projects found))))"

text \<open>\<^verbatim>\<open>router.get('/:identifier', ...)\<close>; \<^verbatim>\<open>findOne\<close> answers the first match.\<close>

definition identifier_query :: "string \<Rightarrow> project_filter" where
  "identifier_query identifier =
     (let query = (if isObjectId identifier then no_filter\<lparr>f_id := Some (oid_of_hex identifier)\<rparr>
                   else no_filter\<lparr>f_slug := Some identifier\<rparr>)
      in query\<lparr>f_isPublished := Some True\<rparr>)"

definition found_or_404 :: "project option \<Rightarrow> response" where
  "found_or_404 r =
     (case r of
        None \<Rightarrow> status_json 404 (Message ''Project not found'')
      | Some project \<Rightarrow> json (ProjectBody project))"

definition get_project :: "env \<Rightarrow> project list \<Rightarrow> string \<Rightarrow> response" where
  "get_project env ps identifier =
     (case project_find (text_match env) (identifier_query identifier) ps of
        Inl e \<Rightarrow> server_error ''Server error''
      | Inr [] \<Rightarrow> found_or_404 None
      | Inr (project # _) \<Rightarrow> found_or_404 (Some project))"

text \<open>
  \<^verbatim>\<open>router.post('/', [auth, ...validateProject], ...)\<close>. The body is given as the document
  that \<^verbatim>\<open>new Project(req.body)\<close> builds from it; the store supplies the id.
\<close>

definition create_project :: "env \<Rightarrow> project store \<Rightarrow> string option \<Rightarrow> project \<Rightarrow> response \<times> project store" where
  "create_project env st authorization req_body =
     (case auth env authorization of
        Inl r \<Rightarrow> (r, st)
      | Inr user \<Rightarrow>
          (let errors = validateProject env req_body
           in if errors \<noteq> [] then (status_json 400 (Errors errors), st)
              else
                (let project = req_body\<lparr>p_id := next_oid st\<rparr>
                 in case check_save (project_valid env) (project_collide env) (docs st) project of
                      Some DuplicateKey \<Rightarrow>
                        (status_json 400 (Message ''Project with this title already exists''), st)
                    | Some e \<Rightarrow> (server_error ''Server error'', st)
                    | None \<Rightarrow> (status_json 201 (ProjectBody project), insert_doc project st))))"

text \<open>
  \<^verbatim>\<open>router.put('/:id', [auth, validateId, ...validateProject], ...)\<close>, with
  \<^verbatim>\<open>findByIdAndUpdate(id, body, { new: true, runValidators: true })\<close>: the stored document
  takes the fields of the body and keeps its id.
\<close>

definition update_project :: "env \<Rightarrow> project store \<Rightarrow> string option \<Rightarrow> string \<Rightarrow> project \<Rightarrow> response \<times> project store" where
  "update_project env st authorization pid req_body =
     (case auth env authorization of
        Inl r \<Rightarrow> (r, st)
      | Inr user \<Rightarrow>
          (let errors = validateId env pid @ validateProject env req_body
           in if errors \<noteq> [] then (status_json 400 (Errors errors), st)
              else
                (case cast_oid pid of
                   None \<Rightarrow> (server_error ''Server error'', st)
                 | Some i \<Rightarrow>
                     (case find (\<lambda>p. p_id p = i) (docs st) of
                        None \<Rightarrow> (status_json 404 (Message ''Project not found''), st)
                      | Some old \<Rightarrow>
                          (let project = req_body\<lparr>p_id := i\<rparr>
                           in case check_save (project_valid env) (project_collide env)
                                     (filter (\<lambda>p. p_id p \<noteq> i) (docs st)) project of
                                Some DuplicateKey \<Rightarrow>
                                  (status_json 400 (Message ''Project with this title already exists''), st)
                              | Some e \<Rightarrow> (server_error ''Server error'', st)
                              | None \<Rightarrow>
                                  (json (ProjectBody project),
                                   st\<lparr>docs := map (\<lambda>p. if p_id p = i then project else p) (docs st)\<rparr>))))))"

text \<open>\<^verbatim>\<open>router.delete('/:id', [auth, validateId], ...)\<close>\<close>

definition delete_project :: "env \<Rightarrow> project store \<Rightarrow> string option \<Rightarrow> string \<Rightarrow> response \<times> project store" where
  "delete_project env st authorization pid =
     (case auth env authorization of
        Inl r \<Rightarrow> (r, st)
      | Inr user \<Rightarrow>
          (let errors = validateId env pid
           in if errors \<noteq> [] then (status_json 400 (Errors errors), st)
              else
                (case cast_oid pid of
                   None \<Rightarrow> (server_error ''Server error'', st)
                 | Some i \<Rightarrow>
                     (case find (\<lambda>p. p_id p = i) (docs st) of
                        None \<Rightarrow> (status_json 404 (Message ''Project not found''), st)
                      | Some project \<Rightarrow>
                          (json (Message ''Project deleted successfully''),
                           st\<lparr>docs := filter (\<lambda>p. p_id p \<noteq> i) (docs st)\<rparr>)))))"

text \<open>\<^verbatim>\<open>router.get('/admin/all', auth, ...)\<close>\<close>

definition admin_all_projects :: "env \<Rightarrow> project list \<Rightarrow> string option \<Rightarrow> response" where
  "admin_all_projects env ps authorization =
     (case auth env authorization of
        Inl r \<Rightarrow> r
      | Inr user \<Rightarrow> json (ProjectsBody (sort_key (\<lambda>p. - p_createdAt p) ps)))"

section \<open>Regular expressions built from request strings\<close>

text \<open>
  \<^verbatim>\<open>new RegExp(`^${s}$`, 'i')\<close> reads the string \<open>s\<close> as a pattern. The fragment modelled
  here has ordinary characters, the dot, and the quantifiers \<^verbatim>\<open>*\<close>, \<^verbatim>\<open>+\<close>, \<^verbatim>\<open>?\<close> (each
  possibly followed by the lazy mark \<^verbatim>\<open>?\<close>) after a single character or dot. A quantifier
  with nothing before it makes the constructor throw a syntax error. A pattern that holds
  any other syntax character is left to \<open>regex_other\<close>.
\<close>

datatype rx_atom = RxChar char | RxDot

datatype rx_quant = One | Star | Plus | Opt

type_synonym rx_term = "rx_atom \<times> rx_quant"

definition is_quant :: "char \<Rightarrow> bool" where
  "is_quant c = (c = CHR ''*'' \<or> c = CHR ''+'' \<or> c = CHR ''?'')"

definition is_other_syntax :: "char \<Rightarrow> bool" where
  "is_other_syntax c =
     (c \<in> set [CHR ''^'', CHR ''$'', CHR 0x5C, CHR ''('', CHR '')'', CHR ''['', CHR '']'',
                CHR ''{'', CHR ''}'', CHR ''|''])"

definition quant_of :: "char \<Rightarrow> rx_quant" where
  "quant_of c = (if c = CHR ''*'' then Star else if c = CHR ''+'' then Plus else Opt)"

definition atom_of :: "char \<Rightarrow> rx_atom" where
  "atom_of c = (if c = CHR ''.'' then RxDot else RxChar c)"

definition cons_term :: "rx_term \<Rightarrow> rx_term list option \<Rightarrow> rx_term list option" where
  "cons_term t r = map_option (\<lambda>ts. t # ts) r"

fun parse_terms :: "string \<Rightarrow> rx_term list option" where
  "parse_terms [] = Some []"
| "parse_terms [c] = (if is_quant c then None else Some [(atom_of c, One)])"
| "parse_terms (c # d # cs) =
     (if is_quant c then None
      else if is_quant d then
        (case cs of
           [] \<Rightarrow> Some [(atom_of c, quant_of d)]
         | e # es \<Rightarrow>
             if e = CHR ''?'' then cons_term (atom_of c, quant_of d) (parse_terms es)
             else cons_term (atom_of c, quant_of d) (parse_terms (e # es)))
      else cons_term (atom_of c, One) (parse_terms (d # cs)))"

text \<open>
  With the flag \<^verbatim>\<open>i\<close> letters match in either case; the dot matches all but a newline;
  the anchors make the expression cover the whole string.
\<close>

definition atom_ok :: "rx_atom \<Rightarrow> char \<Rightarrow> bool" where
  "atom_ok a c = (case a of RxDot \<Rightarrow> c \<noteq> CHR 0x0A | RxChar x \<Rightarrow> to_lower x = to_lower c)"

fun rx_match :: "rx_term list \<Rightarrow> string \<Rightarrow> bool" where
  "rx_match [] s = (s = [])"
| "rx_match ((a, One) # ts) s =
     (case s of [] \<Rightarrow> False | c # cs \<Rightarrow> atom_ok a c \<and> rx_match ts cs)"
| "rx_match ((a, Opt) # ts) s =
     (rx_match ts s \<or> (case s of [] \<Rightarrow> False | c # cs \<Rightarrow> atom_ok a c \<and> rx_match ts cs))"
| "rx_match ((a, Star) # ts) s =
     (rx_match ts s \<or>
      (case s of [] \<Rightarrow> False | c # cs \<Rightarrow> atom_ok a c \<and> rx_match ((a, Star) # ts) cs))"
| "rx_match ((a, Plus) # ts) s =
     (case s of [] \<Rightarrow> False | c # cs \<Rightarrow> atom_ok a c \<and> rx_match ((a, Star) # ts) cs)"

text \<open>
  The anchored, case-insensitive expression for a string; \<^term>\<open>None\<close> when the constructor
  throws.
\<close>

definition anchored_regex :: "env \<Rightarrow> string \<Rightarrow> (string \<Rightarrow> bool) option" where
  "anchored_regex env s =
     (if list_ex is_other_syntax s then regex_other env s
      else map_option rx_match (parse_terms s))"

section \<open>The skill router\<close>

subsection \<open>Field rules\<close>

definition categories :: "string list" where
  "categories = [''frontend'', ''backend'', ''database'', ''devops'', ''mobile'', ''design'',
     ''tools'', ''other'']"

definition levels :: "string list" where
  "levels = [''beginner'', ''intermediate'', ''advanced'', ''expert'']"

definition category_message :: string where
  "category_message =
     ''Category must be one of: frontend, backend, database, devops, mobile, design, tools, other''"

text \<open>
  The rule chains of \<^verbatim>\<open>POST /\<close> and \<^verbatim>\<open>PUT /:id\<close>. Every rule of a chain is run, so an
  empty category is reported twice. An \<^verbatim>\<open>optional()\<close> chain is skipped when the field is
  absent. The type checks \<^verbatim>\<open>isInt\<close> and \<^verbatim>\<open>isBoolean\<close> hold by the typing of the body; the
  ranges remain.
\<close>

definition name_rule :: "bool \<Rightarrow> string \<Rightarrow> string option \<Rightarrow> verror list" where
  "name_rule optional msg v =
     (case v of
        None \<Rightarrow> if optional then [] else [(''name'', msg)]
      | Some s \<Rightarrow> if trim s = [] then [(''name'', msg)] else [])"

definition category_rule :: "bool \<Rightarrow> string \<Rightarrow> string option \<Rightarrow> verror list" where
  "category_rule optional msg v =
     (case v of
        None \<Rightarrow> if optional then [] else [(''category'', msg), (''category'', category_message)]
      | Some s \<Rightarrow>
          (if trim s = [] then [(''category'', msg)] else []) @
          (if trim s \<in> set categories then [] else [(''category'', category_message)]))"

definition common_rules :: "skill_body \<Rightarrow> verror list" where
  "common_rules b =
     (case b_level b of
        None \<Rightarrow> []
      | Some l \<Rightarrow>
          if l \<in> set levels then []
          else [(''level'', ''Level must be one of: beginner, intermediate, advanced, expert'')]) @
     (case b_proficiency b of
        None \<Rightarrow> []
      | Some n \<Rightarrow>
          if 0 \<le> n \<and> n \<le> 100 then []
          else [(''proficiency'', ''Proficiency must be an integer between 0 and 100'')]) @
     (case b_yearsOfExperience b of
        None \<Rightarrow> []
      | Some n \<Rightarrow>
          if 0 \<le> n then []
          else [(''yearsOfExperience'', ''Years of experience must be a positive integer'')])"

definition create_rules :: "skill_body \<Rightarrow> verror list" where
  "create_rules b =
     name_rule False ''Name is required'' (b_name b) @
     category_rule False ''Category is required'' (b_category b) @
     common_rules b"

definition update_rules :: "skill_body \<Rightarrow> verror list" where
  "update_rules b =
     name_rule True ''Name cannot be empty'' (b_name b) @
     category_rule True ''Category cannot be empty'' (b_category b) @
     common_rules b"

text \<open>The \<^verbatim>\<open>trim()\<close> sanitizers of the chains rewrite the body.\<close>

definition sanitize :: "skill_body \<Rightarrow> skill_body" where
  "sanitize b =
     b\<lparr>b_name := map_option trim (b_name b),
       b_category := map_option trim (b_category b),
       b_icon := map_option trim (b_icon b),
       b_color := map_option trim (b_color b),
       b_description := map_option trim (b_description b)\<rparr>"

subsection \<open>Queries on the skill collection\<close>

text \<open>
  The duplicate check of create and update:
  \<^verbatim>\<open>Skill.findOne({ _id: { $ne: id }, name: { $regex: ... }, category: { $regex: ... } })\<close>,
  the \<^verbatim>\<open>_id\<close> constraint being present on update only. The outer \<^term>\<open>None\<close> is the
  exception of a pattern that does not compile.
\<close>

definition find_duplicate :: "env \<Rightarrow> oid option \<Rightarrow> string \<Rightarrow> string \<Rightarrow> skill list \<Rightarrow> skill option option" where
  "find_duplicate env except name category ds =
     (case anchored_regex env name of
        None \<Rightarrow> None
      | Some rn \<Rightarrow>
          (case anchored_regex env category of
             None \<Rightarrow> None
           | Some rc \<Rightarrow>
               Some (find (\<lambda>s. opt_holds except (\<lambda>i. s_id s \<noteq> i) \<and> rn (s_name s) \<and> rc (s_category s)) ds)))"

text \<open>
  The key of a document under \<^verbatim>\<open>.sort({ [field]: 1 })\<close>: numbers by value, strings by
  their characters, \<^verbatim>\<open>false\<close> before \<^verbatim>\<open>true\<close>; a field no document has orders nothing.
\<close>

definition sort_field :: "string \<Rightarrow> skill \<Rightarrow> int \<times> string" where
  "sort_field f s =
     (if f = ''name'' then (0, s_name s)
      else if f = ''category'' then (0, s_category s)
      else if f = ''level'' then (0, s_level s)
      else if f = ''icon'' then (0, s_icon s)
      else if f = ''color'' then (0, s_color s)
      else if f = ''description'' then (0, s_description s)
      else if f = ''proficiency'' then (s_proficiency s, [])
      else if f = ''yearsOfExperience'' then (s_yearsOfExperience s, [])
      else if f = ''order'' then (s_order s, [])
      else if f = ''isVisible'' then (if s_isVisible s then 1 else 0, [])
      else if f = ''_id'' then (int (s_id s), [])
      else (0, []))"

text \<open>The optional fields of a body are applied only when they are present.\<close>

definition apply_optional :: "skill_body \<Rightarrow> skill \<Rightarrow> skill" where
  "apply_optional b skill =
     (let skill = (case b_level b of None \<Rightarrow> skill | Some v \<Rightarrow> skill\<lparr>s_level := v\<rparr>);
          skill = (case b_proficiency b of None \<Rightarrow> skill | Some v \<Rightarrow> skill\<lparr>s_proficiency := v\<rparr>);
          skill = (case b_icon b of None \<Rightarrow> skill | Some v \<Rightarrow> skill\<lparr>s_icon := v\<rparr>);
          skill = (case b_color b of None \<Rightarrow> skill | Some v \<Rightarrow> skill\<lparr>s_color := v\<rparr>);
          skill = (case b_description b of None \<Rightarrow> skill | Some v \<Rightarrow> skill\<lparr>s_description := v\<rparr>);
          skill = (case b_yearsOfExperience b of None \<Rightarrow> skill | Some v \<Rightarrow> skill\<lparr>s_yearsOfExperience := v\<rparr>);
          skill = (case b_isVisible b of None \<Rightarrow> skill | Some v \<Rightarrow> skill\<lparr>s_isVisible := v\<rparr>);
          skill = (case b_order b of None \<Rightarrow> skill | Some v \<Rightarrow> skill\<lparr>s_order := v\<rparr>)
      in skill)"

subsection \<open>Public routes\<close>

text \<open>\<^verbatim>\<open>router.get('/', ...)\<close> with \<^verbatim>\<open>const { category, sort = 'name' } = req.query\<close>\<close>

definition get_skills :: "env \<Rightarrow> skill list \<Rightarrow> string option \<Rightarrow> string option \<Rightarrow> response" where
  "get_skills env ds category sort_param =
     (let sort = (case sort_param of None \<Rightarrow> ''name'' | Some f \<Rightarrow> f);
          by_category =
            (case category of
               None \<Rightarrow> Some (\<lambda>c. True)
             | Some c \<Rightarrow> if c = [] then Some (\<lambda>c. True) else anchored_regex env c)
      in case by_category of
           None \<Rightarrow> server_error ''Server error while fetching skills''
         | Some rc \<Rightarrow>
             json (SkillsBody
               (sort_key (\<lambda>s. (s_order s, sort_field sort s))
                  (filter (\<lambda>s. s_isVisible s \<and> rc (s_category s)) ds))))"

text \<open>\<^verbatim>\<open>router.get('/categories', ...)\<close>\<close>

definition get_categories :: "skill list \<Rightarrow> response" where
  "get_categories ds = json (CategoriesBody (remdups (map s_category ds)))"

text \<open>\<^verbatim>\<open>router.get('/:id', ...)\<close>: a string that is no object id ends in the \<^verbatim>\<open>catch\<close>.\<close>

definition get_skill :: "skill list \<Rightarrow> string \<Rightarrow> response" where
  "get_skill ds sid =
     (case cast_oid sid of
        None \<Rightarrow> status_json 404 (Message ''Skill not found with provided ID'')
      | Some i \<Rightarrow>
          (case find (\<lambda>s. s_id s = i) ds of
             None \<Rightarrow> status_json 404 (Message ''Skill not found'')
           | Some skill \<Rightarrow> json (SkillBody skill)))"

subsection \<open>Admin routes\<close>

text \<open>\<^verbatim>\<open>router.get('/admin/all', auth, ...)\<close>\<close>

definition admin_all_skills :: "env \<Rightarrow> skill list \<Rightarrow> string option \<Rightarrow> response" where
  "admin_all_skills env ds authorization =
     (case auth env authorization of
        Inl r \<Rightarrow> r
      | Inr user \<Rightarrow>
          if u_role user \<noteq> ''admin'' then status_json 403 (Message ''Admin access required'')
          else json (SkillsBody (sort_key (\<lambda>s. (s_category s, s_order s, s_name s)) ds)))"

text \<open>\<^verbatim>\<open>router.post('/', [auth, ...rules, validation], ...)\<close>\<close>

definition create_skill :: "env \<Rightarrow> skill store \<Rightarrow> string option \<Rightarrow> skill_body \<Rightarrow> response \<times> skill store" where
  "create_skill env st authorization req_body =
     (case auth env authorization of
        Inl r \<Rightarrow> (r, st)
      | Inr user \<Rightarrow>
          (let errors = create_rules req_body; body = sanitize req_body
           in if errors \<noteq> [] then (status_json 400 (Errors errors), st)
              else if u_role user \<noteq> ''admin'' then
                (status_json 403 (Message ''Admin access required to create skills''), st)
              else
                (case (b_name body, b_category body) of
                   (Some name, Some category) \<Rightarrow>
                     (case find_duplicate env None name category (docs st) of
                        None \<Rightarrow> (server_error ''Server error while creating skill'', st)
                      | Some (Some existingSkill) \<Rightarrow>
                          (status_json 400
                             (Message ''Skill with this name already exists in this category''), st)
                      | Some None \<Rightarrow>
                          (let skillData = (skill_defaults env)
                                 \<lparr>s_id := next_oid st, s_name := name, s_category := category\<rparr>;
                               skill = apply_optional body skillData
                           in case check_save (skill_valid env) (skill_collide env) (docs st) skill of
                                Some e \<Rightarrow> (server_error ''Server error while creating skill'', st)
                              | None \<Rightarrow> (status_json 201 (SkillBody skill), insert_doc skill st)))
                 | _ \<Rightarrow> (server_error ''Server error while creating skill'', st))))"

text \<open>\<^verbatim>\<open>a || b\<close> on strings.\<close>

definition or_else :: "string option \<Rightarrow> string \<Rightarrow> string" where
  "or_else a b = (case a of None \<Rightarrow> b | Some s \<Rightarrow> if s = [] then b else s)"

text \<open>\<^verbatim>\<open>router.put('/:id', [auth, ...rules, validation], ...)\<close>\<close>

definition update_skill :: "env \<Rightarrow> skill store \<Rightarrow> string option \<Rightarrow> string \<Rightarrow> skill_body \<Rightarrow> response \<times> skill store" where
  "update_skill env st authorization sid req_body =
     (case auth env authorization of
        Inl r \<Rightarrow> (r, st)
      | Inr user \<Rightarrow>
          (let errors = update_rules req_body; body = sanitize req_body
           in if errors \<noteq> [] then (status_json 400 (Errors errors), st)
              else if u_role user \<noteq> ''admin'' then
                (status_json 403 (Message ''Admin access required to update skills''), st)
              else
                (case cast_oid sid of
                   None \<Rightarrow> (status_json 404 (Message ''Skill not found with provided ID''), st)
                 | Some i \<Rightarrow>
                     (case find (\<lambda>s. s_id s = i) (docs st) of
                        None \<Rightarrow> (status_json 404 (Message ''Skill not found''), st)
                      | Some skill \<Rightarrow>
                          (let existing =
                                 (if b_name body \<noteq> None \<or> b_category body \<noteq> None then
                                    (let checkName = or_else (b_name body) (s_name skill);
                                         checkCategory = or_else (b_category body) (s_category skill)
                                     in find_duplicate env (Some i) checkName checkCategory (docs st))
                                  else Some None)
                           in case existing of
                                None \<Rightarrow> (server_error ''Server error while updating skill'', st)
                              | Some (Some existingSkill) \<Rightarrow>
                                  (status_json 400
                                     (Message ''Another skill with this name exists in this category''), st)
                              | Some None \<Rightarrow>
                                  (let skill = (case b_name body of None \<Rightarrow> skill | Some v \<Rightarrow> skill\<lparr>s_name := v\<rparr>);
                                       skill = (case b_category body of None \<Rightarrow> skill | Some v \<Rightarrow> skill\<lparr>s_category := v\<rparr>);
                                       skill = apply_optional body skill
                                   in case check_save (skill_valid env) (skill_collide env)
                                             (filter (\<lambda>s. s_id s \<noteq> i) (docs st)) skill of
                                        Some e \<Rightarrow> (server_error ''Server error while updating skill'', st)
                                      | None \<Rightarrow>
                                          (json (SkillBody skill),
                                           st\<lparr>docs := map (\<lambda>s. if s_id s = i then skill else s) (docs st)\<rparr>)))))))"

text \<open>\<^verbatim>\<open>router.delete('/:id', auth, ...)\<close>\<close>

definition delete_skill :: "env \<Rightarrow> skill store \<Rightarrow> string option \<Rightarrow> string \<Rightarrow> response \<times> skill store" where
  "delete_skill env st authorization sid =
     (case auth env authorization of
        Inl r \<Rightarrow> (r, st)
      | Inr user \<Rightarrow>
          if u_role user \<noteq> ''admin'' then
            (status_json 403 (Message ''Admin access required to delete skills''), st)
          else
            (case cast_oid sid of
               None \<Rightarrow> (status_json 404 (Message ''Skill not found with provided ID''), st)
             | Some i \<Rightarrow>
                 (case find (\<lambda>s. s_id s = i) (docs st) of
                    None \<Rightarrow> (status_json 404 (Message ''Skill not found''), st)
                  | Some skill \<Rightarrow>
                      (json (Message ''Skill deleted successfully''),
                       st\<lparr>docs := filter (\<lambda>s. s_id s \<noteq> i) (docs st)\<rparr>))))"

text \<open>
  \<^verbatim>\<open>router.post('/bulk', auth, ...)\<close>. The loop over the array answers at the first element
  that lacks a name or a category or whose proficiency is out of range; the elements before
  it have been trimmed by then, and nothing has been written.
\<close>

fun validate_bulk :: "skill_body list \<Rightarrow> response + skill_body list" where
  "validate_bulk [] = Inr []"
| "validate_bulk (skill # rest) =
     (if \<not> truthy (b_name skill) \<or> \<not> truthy (b_category skill) then
        Inl (status_json 400 (InvalidSkill ''Each skill must have a name and category'' skill))
      else
        (let skill = sanitize skill
         in if (case b_proficiency skill of None \<Rightarrow> False | Some n \<Rightarrow> n < 0 \<or> n > 100) then
              Inl (status_json 400 (InvalidSkill ''Skill proficiency must be between 0 and 100'' skill))
            else
              (case validate_bulk rest of
                 Inl r \<Rightarrow> Inl r
               | Inr checked \<Rightarrow> Inr (skill # checked))))"

text \<open>
  \<^verbatim>\<open>Skill.insertMany(skills, { ordered: false })\<close>: every element becomes a document with
  the schema's defaults; those the schema rejects are left out; the others are inserted one
  after the other, an insert that a unique index refuses being reported after the rest has
  been tried.
\<close>

definition doc_of_body :: "env \<Rightarrow> oid \<Rightarrow> skill_body \<Rightarrow> skill" where
  "doc_of_body env i b =
     apply_optional b
       ((skill_defaults env)
          \<lparr>s_id := i,
           s_name := (case b_name b of None \<Rightarrow> [] | Some v \<Rightarrow> v),
           s_category := (case b_category b of None \<Rightarrow> [] | Some v \<Rightarrow> v)\<rparr>)"

fun insert_unordered :: "('d \<Rightarrow> 'd \<Rightarrow> bool) \<Rightarrow> 'd list \<Rightarrow> 'd list \<Rightarrow> 'd list \<times> 'd list \<times> bool" where
  "insert_unordered collide [] ds = (ds, [], False)"
| "insert_unordered collide (d # rest) ds =
     (if list_ex (collide d) ds then
        (case insert_unordered collide rest ds of (ds', created, refused) \<Rightarrow> (ds', created, True))
      else
        (case insert_unordered collide rest (ds @ [d]) of
           (ds', created, refused) \<Rightarrow> (ds', d # created, refused)))"

definition insertMany :: "env \<Rightarrow> skill_body list \<Rightarrow> skill store \<Rightarrow> (skill list \<times> bool) \<times> skill store" where
  "insertMany env skills st =
     (let built = map (\<lambda>(k, b). doc_of_body env (next_oid st + k) b) (enumerate 0 skills);
          accepted = filter (skill_valid env) built
      in case insert_unordered (skill_collide env) accepted (docs st) of
           (ds', created, refused) \<Rightarrow>
             ((created, refused), st\<lparr>docs := ds', next_oid := next_oid st + length skills\<rparr>))"

definition bulk_create_skills :: "env \<Rightarrow> skill store \<Rightarrow> string option \<Rightarrow> skill_body list option \<Rightarrow> response \<times> skill store" where
  "bulk_create_skills env st authorization skills =
     (case auth env authorization of
        Inl r \<Rightarrow> (r, st)
      | Inr user \<Rightarrow>
          if u_role user \<noteq> ''admin'' then
            (status_json 403 (Message ''Admin access required for bulk skill creation''), st)
          else
            (case skills of
               None \<Rightarrow>
                 (status_json 400 (Message ''An array of skills is required for bulk creation''), st)
             | Some [] \<Rightarrow>
                 (status_json 400 (Message ''An array of skills is required for bulk creation''), st)
             | Some (x # xs) \<Rightarrow>
                 (case validate_bulk (x # xs) of
                    Inl r \<Rightarrow> (r, st)
                  | Inr checked \<Rightarrow>
                      (case insertMany env checked st of
                         ((createdSkills, refused), st') \<Rightarrow>
                           if refused then
                             (status_json 400 (Message ''One or more skills already exist''), st')
                           else (status_json 201 (SkillsBody createdSkills), st')))))"

section \<open>The admin-only routes as the server mounts them\<close>

record db =
  db_projects :: "project store"
  db_skills :: "skill store"

datatype admin_request =
    ProjectCreate project
  | ProjectUpdate string project
  | ProjectDelete string
  | ProjectAdminAll
  | SkillAdminAll
  | SkillCreate skill_body
  | SkillUpdate string skill_body
  | SkillDelete string
  | SkillBulk "skill_body list option"

definition on_projects :: "db \<Rightarrow> response \<times> project store \<Rightarrow> response \<times> db" where
  "on_projects d r = (fst r, d\<lparr>db_projects := snd r\<rparr>)"

definition on_skills :: "db \<Rightarrow> response \<times> skill store \<Rightarrow> response \<times> db" where
  "on_skills d r = (fst r, d\<lparr>db_skills := snd r\<rparr>)"

fun admin_route :: "env \<Rightarrow> db \<Rightarrow> string option \<Rightarrow> admin_request \<Rightarrow> response \<times> db" where
  "admin_route env d a (ProjectCreate b) = on_projects d (create_project env (db_projects d) a b)"
| "admin_route env d a (ProjectUpdate i b) = on_projects d (update_project env (db_projects d) a i b)"
| "admin_route env d a (ProjectDelete i) = on_projects d (delete_project env (db_projects d) a i)"
| "admin_route env d a ProjectAdminAll = (admin_all_projects env (docs (db_projects d)) a, d)"
| "admin_route env d a SkillAdminAll = (admin_all_skills env (docs (db_skills d)) a, d)"
| "admin_route env d a (SkillCreate b) = on_skills d (create_skill env (db_skills d) a b)"
| "admin_route env d a (SkillUpdate i b) = on_skills d (update_skill env (db_skills d) a i b)"
| "admin_route env d a (SkillDelete i) = on_skills d (delete_skill env (db_skills d) a i)"
| "admin_route env d a (SkillBulk xs) = on_skills d (bulk_create_skills env (db_skills d) a xs)"

text \<open>The documents a response carries.\<close>

definition returned_projects :: "response \<Rightarrow> project list" where
  "returned_projects r =
     (case res_body r of
        ProjectBody p \<Rightarrow> [p]
      | ProjectsBody xs \<Rightarrow> xs
      | ProjectsPage xs pg \<Rightarrow> xs
      | _ \<Rightarrow> [])"

definition returned_skills :: "response \<Rightarrow> skill list" where
  "returned_skills r =
     (case res_body r of
        SkillBody x \<Rightarrow> [x]
      | SkillsBody xs \<Rightarrow> xs
      | _ \<Rightarrow> [])"

section \<open>Sample data\<close>

text \<open>
  An environment for running the routes on concrete requests: two tokens, rule lists that
  accept everything, a unique project title and, for skills, a unique (name, category) pair
  compared without regard to letter case.
\<close>

definition sample_verify :: "string \<Rightarrow> identity option" where
  "sample_verify h =
     (if h = ''Bearer admin-token'' then Some \<lparr>u_id = 1, u_role = ''admin''\<rparr>
      else if h = ''Bearer user-token'' then Some \<lparr>u_id = 2, u_role = ''user''\<rparr>
      else None)"

definition sample_defaults :: skill where
  "sample_defaults =
     \<lparr>s_id = 0, s_name = [], s_category = [], s_level = ''intermediate'', s_proficiency = 50,
      s_icon = [], s_color = [], s_description = [], s_yearsOfExperience = 0,
      s_isVisible = True, s_order = 0\<rparr>"

definition same_pair :: "skill \<Rightarrow> skill \<Rightarrow> bool" where
  "same_pair a b =
     (lower (s_name a) = lower (s_name b) \<and> lower (s_category a) = lower (s_category b))"

definition sample_env :: env where
  "sample_env =
     \<lparr>verify = sample_verify,
      validateProject = (\<lambda>b. []),
      validateId = (\<lambda>i. []),
      validatePagination = (\<lambda>q. None),
      text_match = (\<lambda>s p. False),
      project_valid = (\<lambda>p. True),
      project_collide = (\<lambda>a b. p_title a = p_title b),
      skill_defaults = sample_defaults,
      skill_valid = (\<lambda>s. True),
      skill_collide = same_pair,
      regex_other = (\<lambda>s. None)\<rparr>"

definition no_body :: skill_body where
  "no_body =
     \<lparr>b_name = None, b_category = None, b_level = None, b_proficiency = None, b_icon = None,
      b_color = None, b_description = None, b_yearsOfExperience = None, b_isVisible = None,
      b_order = None\<rparr>"

definition named :: "string \<Rightarrow> string \<Rightarrow> skill_body" where
  "named n c = no_body\<lparr>b_name := Some n, b_category := Some c\<rparr>"

definition sample_skill :: "oid \<Rightarrow> string \<Rightarrow> string \<Rightarrow> skill" where
  "sample_skill i n c = sample_defaults\<lparr>s_id := i, s_name := n, s_category := c\<rparr>"

definition sample_project :: "oid \<Rightarrow> string \<Rightarrow> bool \<Rightarrow> bool \<Rightarrow> project" where
  "sample_project i t featured published =
     \<lparr>p_id = i, p_title = t, p_slug = t, p_category = ''web'', p_isFeatured = featured,
      p_isPublished = published, p_priority = 0, p_createdAt = int i\<rparr>"

definition no_query :: projects_query where
  "no_query =
     \<lparr>q_page = None, q_limit = None, q_category = None, q_featured = None, q_search = None,
      q_exclude = None\<rparr>"

definition empty_store :: "'d store" where
  "empty_store = \<lparr>docs = [], next_oid = 1\<rparr>"

definition sample_projects :: "project list" where
  "sample_projects =
     [sample_project 1 ''a'' True True, sample_project 2 ''b'' False True,
      sample_project 3 ''c'' True False]"


text \<open>
  The filters of the listing other than the publication flag and the featured flag, in the
  words of the interface: category by exact match, full-text search, exclusion of one id.
  An empty parameter is no filter.
\<close>

definition other_filters :: "env \<Rightarrow> projects_query \<Rightarrow> project \<Rightarrow> bool" where
  "other_filters env q p =
     ((case q_category q of None \<Rightarrow> True | Some c \<Rightarrow> c = [] \<or> p_category p = c) \<and>
      (case q_search q of None \<Rightarrow> True | Some s \<Rightarrow> s = [] \<or> text_match env s p) \<and>
      (case q_exclude q of
         None \<Rightarrow> True
       | Some e \<Rightarrow> e = [] \<or> (case cast_oid e of None \<Rightarrow> False | Some i \<Rightarrow> p_id p \<noteq> i)))"



definition sample_db :: db where
  "sample_db = \<lparr>db_projects = empty_store, db_skills = empty_store\<rparr>"

text \<open>A string that holds no syntax character of a regular expression.\<close>

definition is_plain :: "string \<Rightarrow> bool" where
  "is_plain s = (\<not> list_ex (\<lambda>c. is_quant c \<or> c = CHR ''.'' \<or> is_other_syntax c) s)"

section \<open>Facts about the store operations\<close>

lemma filter_head_find:
  "(case filter P xs of [] \<Rightarrow> f None | x # _ \<Rightarrow> f (Some x)) = f (find P xs)"
  by (induction xs) auto

lemma project_find_no_exclude:
  "f_id_ne f = None \<Longrightarrow> project_find tm f ps = Inr (filter (project_matches tm f None) ps)"
  by (simp add: project_find_def)

lemma project_find_subset:
  assumes "project_find tm f ps = Inr found"
  shows "set found \<subseteq> set ps"
  using assms by (auto simp: project_find_def split: option.splits)

lemma project_find_published:
  assumes "project_find tm f ps = Inr found" and "f_isPublished f = Some True" and "p \<in> set found"
  shows "p_isPublished p"
  using assms by (auto simp: project_find_def project_matches_def opt_holds_def split: option.splits)

lemma project_find_featured:
  assumes "project_find tm f ps = Inr found" and "f_isFeatured f = Some True" and "p \<in> set found"
  shows "p_isFeatured p"
  using assms by (auto simp: project_find_def project_matches_def opt_holds_def split: option.splits)

lemma set_sort_projects: "set (sort_projects ps) = set ps"
  by (simp add: sort_projects_def)

lemma set_limit_docs: "set (limit_docs n xs) \<subseteq> set xs"
  by (auto simp: limit_docs_def dest: in_set_takeD)

lemma set_skip_docs: "skip_docs n xs = Inr ys \<Longrightarrow> set ys \<subseteq> set xs"
  by (auto simp: skip_docs_def split: if_splits dest: in_set_dropD)

lemma published_build_query: "f_isPublished (build_query q) = Some True"
  by (simp add: build_query_def no_filter_def Let_def)

lemma find_by_id:
  "s \<in> set ds \<Longrightarrow> distinct (map s_id ds) \<Longrightarrow> find (\<lambda>x. s_id x = s_id s) ds = Some s"
  by (induction ds) force+

lemma validate_bulk_status: "validate_bulk xs = Inl r \<Longrightarrow> res_status r = 400"
proof (induction xs arbitrary: r)
  case Nil
  then show ?case by simp
next
  case (Cons x xs)
  then show ?case
    by (auto simp: Let_def status_json_def split: if_splits sum.splits option.splits)
qed

lemma validate_bulk_rejects:
  "\<exists>b \<in> set xs. \<not> truthy (b_name b) \<or> \<not> truthy (b_category b) \<Longrightarrow> \<exists>r. validate_bulk xs = Inl r"
proof (induction xs)
  case Nil
  then show ?case by simp
next
  case (Cons x xs)
  show ?case
  proof (cases "\<not> truthy (b_name x) \<or> \<not> truthy (b_category x)")
    case True
    then show ?thesis by auto
  next
    case False
    with Cons.prems have "\<exists>b \<in> set xs. \<not> truthy (b_name b) \<or> \<not> truthy (b_category b)" by auto
    then obtain r where "validate_bulk xs = Inl r" using Cons.IH by blast
    with False show ?thesis by (auto simp: Let_def)
  qed
qed

lemma auth_missing: "auth env None = Inl (status_json 401 (Message ''No token, authorization denied''))"
  by (simp add: auth_def)

lemma auth_valid: "verify env h = Some u \<Longrightarrow> auth env (Some h) = Inr u"
  by (simp add: auth_def)

lemma handler_answer:
  assumes "validatePagination env q = None"
    and "project_find (text_match env) (build_query q) ps = Inr found"
    and "pagination_in_range q"
  shows "get_projects env ps q =
      json (ProjectsPage
        (take (nat (limit_of q)) (drop (nat ((page_of q - 1) * limit_of q)) (sort_projects found)))
        \<lparr>pg_page = page_of q, pg_limit = limit_of q, pg_total = int (length found),
         pg_pages = \<lceil>real_of_int (int (length found)) / real_of_int (limit_of q)\<rceil>\<rparr>)"
proof -
  have pos: "0 < page_of q" "0 < limit_of q"
    using assms(3) by (simp_all add: pagination_in_range_def)
  have sk: "\<not> (page_of q - 1) * limit_of q < 0"
    using pos by (simp add: mult_less_0_iff)
  show ?thesis
    using assms(1,2) pos(2) sk
    by (simp add: get_projects_def projects_handler_def Let_def skip_docs_def limit_docs_def)
qed

lemma found_without_featured:
  assumes "q_featured q \<noteq> Some ''true''"
    and "project_find (text_match env) (build_query q) ps = Inr found"
  shows "found = filter (\<lambda>p. p_isPublished p \<and> other_filters env q p) ps"
proof -
  have "project_matches (text_match env) (build_query q) ne p =
      (p_isPublished p \<and>
       (case q_category q of None \<Rightarrow> True | Some c \<Rightarrow> c = [] \<or> p_category p = c) \<and>
       (case q_search q of None \<Rightarrow> True | Some s \<Rightarrow> s = [] \<or> text_match env s p) \<and>
       opt_holds ne (\<lambda>i. p_id p \<noteq> i))" for ne p
    using assms(1)
    by (cases "q_category q"; cases "q_search q"; cases "q_exclude q")
      (auto simp: project_matches_def build_query_def no_filter_def opt_holds_def Let_def)
  then show ?thesis
    using assms(2)
    by (cases "q_exclude q")
      (auto simp: project_find_def build_query_def no_filter_def other_filters_def opt_holds_def
        Let_def split: option.splits if_splits intro!: filter_cong)
qed


section \<open>The project router: listing, featured list and single project\<close>

text \<open>
  Claim C6. Whatever the query values are, a project appears in the list that
  \<^verbatim>\<open>GET /projects\<close> returns only if it is published (and it is a stored project). A
  response without a list (validation errors, server error) returns no project.
\<close>

theorem listed_projects_published:
  "p \<in> set (returned_projects (get_projects env ps q)) \<Longrightarrow> p_isPublished p \<and> p \<in> set ps"
proof -
  assume a: "p \<in> set (returned_projects (get_projects env ps q))"
  show ?thesis
  proof (cases "validatePagination env q")
    case (Some errors)
    with a show ?thesis
      by (simp add: get_projects_def returned_projects_def status_json_def)
  next
    case None
    show ?thesis
    proof (cases "project_find (text_match env) (build_query q) ps")
      case (Inl e)
      with a None show ?thesis
        by (simp add: get_projects_def projects_handler_def returned_projects_def
            server_error_def status_json_def Let_def)
    next
      case (Inr found)
      show ?thesis
      proof (cases "skip_docs ((page_of q - 1) * limit_of q) (sort_projects found)")
        case (Inl e)
        with a None Inr show ?thesis
          by (simp add: get_projects_def projects_handler_def returned_projects_def
              server_error_def status_json_def Let_def)
      next
        case (Inr rest)
        with a None \<open>project_find (text_match env) (build_query q) ps = Inr found\<close>
        have "p \<in> set (limit_docs (limit_of q) rest)"
          by (simp add: get_projects_def projects_handler_def returned_projects_def
              json_def Let_def)
        then have "p \<in> set found"
          using set_limit_docs[of "limit_of q" rest] set_skip_docs[OF Inr]
          by (auto simp: set_sort_projects)
        then show ?thesis
          using project_find_published[OF \<open>project_find (text_match env) (build_query q) ps = Inr found\<close>
              published_build_query]
            project_find_subset[OF \<open>project_find (text_match env) (build_query q) ps = Inr found\<close>]
          by auto
      qed
    qed
  qed
qed

text \<open>
  The listing of three stored projects, one of them unpublished, returns the published
  project \<open>b\<close>.
\<close>

theorem listed_projects_published_witness:
  "sample_project 2 ''b'' False True \<in> set (returned_projects (get_projects sample_env sample_projects no_query)) \<and>
   p_isPublished (sample_project 2 ''b'' False True) \<and>
   sample_project 2 ''b'' False True \<in> set sample_projects"
proof -
  have m: "sample_project 2 ''b'' False True \<in> set (returned_projects (get_projects sample_env sample_projects no_query))"
    by code_simp
  show ?thesis
    using listed_projects_published[OF m] m by simp
qed

text \<open>
  Claim C5. \<^verbatim>\<open>GET /projects/featured\<close> always answers with a bare list of at most 6
  projects, each of them published and featured: a featured project that is not published
  is not in it.
\<close>

theorem featured_capped_and_published:
  "\<exists>xs. get_featured env ps = json (ProjectsBody xs) \<and> length xs \<le> 6 \<and>
     (\<forall>p \<in> set xs. p_isPublished p \<and> p_isFeatured p \<and> p \<in> set ps)"
proof -
  let ?f = "no_filter\<lparr>f_isPublished := Some True, f_isFeatured := Some True\<rparr>"
  let ?found = "filter (project_matches (text_match env) ?f None) ps"
  have pf: "project_find (text_match env) ?f ps = Inr ?found"
    by (rule project_find_no_exclude) (simp add: no_filter_def)
  have r: "get_featured env ps = json (ProjectsBody (limit_docs 6 (sort_projects ?found)))"
    by (simp add: get_featured_def pf)
  have len: "length (limit_docs 6 (sort_projects ?found)) \<le> 6"
    by (simp add: limit_docs_def)
  have mem: "p \<in> set (limit_docs 6 (sort_projects ?found)) \<Longrightarrow>
      p_isPublished p \<and> p_isFeatured p \<and> p \<in> set ps" for p
  proof -
    assume "p \<in> set (limit_docs 6 (sort_projects ?found))"
    then have "p \<in> set ?found"
      using set_limit_docs[of 6 "sort_projects ?found"] by (auto simp: set_sort_projects)
    then show ?thesis
      using project_find_published[OF pf] project_find_featured[OF pf] by simp
  qed
  show ?thesis using r len mem by blast
qed

text \<open>
  Of three stored projects, the one that is featured but unpublished is left out, and so is
  the published one that is not featured.
\<close>

theorem featured_capped_and_published_witness:
  "get_featured sample_env sample_projects = json (ProjectsBody [sample_project 1 ''a'' True True]) \<and>
   length [sample_project 1 ''a'' True True] \<le> 6 \<and>
   p_isPublished (sample_project 1 ''a'' True True) \<and>
   p_isFeatured (sample_project 1 ''a'' True True) \<and>
   sample_project 1 ''a'' True True \<in> set sample_projects"
proof -
  have e: "returned_projects (get_featured sample_env sample_projects) = [sample_project 1 ''a'' True True]"
    by code_simp
  obtain xs where r: "get_featured sample_env sample_projects = json (ProjectsBody xs)"
    and l: "length xs \<le> 6"
    and m: "\<forall>p \<in> set xs. p_isPublished p \<and> p_isFeatured p \<and> p \<in> set sample_projects"
    using featured_capped_and_published[of sample_env sample_projects] by blast
  have "returned_projects (json (ProjectsBody xs)) = xs"
    by (simp add: returned_projects_def json_def)
  with e r have x: "xs = [sample_project 1 ''a'' True True]" by simp
  show ?thesis using r l m unfolding x by simp
qed

text \<open>
  Claim C2. \<^verbatim>\<open>GET /projects/:identifier\<close>: an identifier of 24 hexadecimal digits is looked
  up as an id, any other string as a slug; in both cases the project must be published, and
  the answer is 404 when there is no such project.
\<close>

theorem get_project_id_or_slug:
  "(isObjectId identifier \<longrightarrow>
      get_project env ps identifier =
        found_or_404 (find (\<lambda>p. p_id p = oid_of_hex identifier \<and> p_isPublished p) ps)) \<and>
   (\<not> isObjectId identifier \<longrightarrow>
      get_project env ps identifier =
        found_or_404 (find (\<lambda>p. p_slug p = identifier \<and> p_isPublished p) ps))"
proof -
  have m1: "isObjectId identifier \<Longrightarrow>
      project_matches (text_match env) (identifier_query identifier) None
        = (\<lambda>p. p_id p = oid_of_hex identifier \<and> p_isPublished p)"
    by (auto simp: project_matches_def identifier_query_def no_filter_def opt_holds_def fun_eq_iff)
  have m2: "\<not> isObjectId identifier \<Longrightarrow>
      project_matches (text_match env) (identifier_query identifier) None
        = (\<lambda>p. p_slug p = identifier \<and> p_isPublished p)"
    by (auto simp: project_matches_def identifier_query_def no_filter_def opt_holds_def fun_eq_iff)
  have ne: "f_id_ne (identifier_query identifier) = None"
    by (simp add: identifier_query_def no_filter_def Let_def)
  have g: "get_project env ps identifier =
      found_or_404 (find (project_matches (text_match env) (identifier_query identifier) None) ps)"
    unfolding get_project_def project_find_no_exclude[OF ne]
    using filter_head_find[of found_or_404 "project_matches (text_match env) (identifier_query identifier) None" ps]
    by (simp split: list.splits)
  show ?thesis using g m1 m2 by simp
qed

text \<open>A lookup by id, a lookup by slug, and the slug of an unpublished project.\<close>

theorem get_project_id_or_slug_witness:
  "isObjectId ''00000000000000000000000A'' \<and>
   get_project sample_env (sample_projects @ [sample_project 10 ''j'' False True]) ''00000000000000000000000A'' =
     json (ProjectBody (sample_project 10 ''j'' False True)) \<and>
   \<not> isObjectId ''b'' \<and>
   get_project sample_env sample_projects ''b'' = json (ProjectBody (sample_project 2 ''b'' False True)) \<and>
   \<not> isObjectId ''c'' \<and>
   get_project sample_env sample_projects ''c'' = status_json 404 (Message ''Project not found'')"
proof -
  have i1: "isObjectId ''00000000000000000000000A''" by code_simp
  have f1: "found_or_404 (find (\<lambda>p. p_id p = oid_of_hex ''00000000000000000000000A'' \<and> p_isPublished p)
      (sample_projects @ [sample_project 10 ''j'' False True])) = json (ProjectBody (sample_project 10 ''j'' False True))"
    by code_simp
  have i2: "\<not> isObjectId ''b''" by code_simp
  have f2: "found_or_404 (find (\<lambda>p. p_slug p = ''b'' \<and> p_isPublished p) sample_projects) =
      json (ProjectBody (sample_project 2 ''b'' False True))"
    by code_simp
  have i3: "\<not> isObjectId ''c''" by code_simp
  have f3: "found_or_404 (find (\<lambda>p. p_slug p = ''c'' \<and> p_isPublished p) sample_projects) =
      status_json 404 (Message ''Project not found'')"
    by code_simp
  show ?thesis
    using get_project_id_or_slug[of "''00000000000000000000000A''" sample_env
        "sample_projects @ [sample_project 10 ''j'' False True]"]
      get_project_id_or_slug[of "''b''" sample_env sample_projects]
      get_project_id_or_slug[of "''c''" sample_env sample_projects]
      i1 f1 i2 f2 i3 f3
    by simp
qed

text \<open>
  Claim C10. The featured constraint is part of the filter exactly when the query parameter
  is the string \<^verbatim>\<open>true\<close>. For any other value, \<^verbatim>\<open>false\<close> included, the filter and the
  answer of the handler are those of a request without the parameter; the store query finds
  every published project that passes the other filters, whatever its featured flag, and
  \<^verbatim>\<open>GET /projects\<close> returns the page of these projects. With the value \<^verbatim>\<open>true\<close> every
  returned project is featured. The page is stated for a request that the pagination
  middleware passes on with page and limit in range.
\<close>

theorem featured_filter_only_for_true:
  "f_isFeatured (build_query q) = (if q_featured q = Some ''true'' then Some True else None) \<and>
   (q_featured q \<noteq> Some ''true'' \<longrightarrow>
      build_query q = build_query (q\<lparr>q_featured := None\<rparr>) \<and>
      projects_handler env ps q = projects_handler env ps (q\<lparr>q_featured := None\<rparr>)) \<and>
   (q_featured q \<noteq> Some ''true'' \<longrightarrow> validatePagination env q = None \<longrightarrow> pagination_in_range q \<longrightarrow>
      (\<forall>found. project_find (text_match env) (build_query q) ps = Inr found \<longrightarrow>
         found = filter (\<lambda>p. p_isPublished p \<and> other_filters env q p) ps \<and>
         returned_projects (get_projects env ps q) =
           take (nat (limit_of q)) (drop (nat ((page_of q - 1) * limit_of q)) (sort_projects found)))) \<and>
   (q_featured q = Some ''true'' \<longrightarrow>
      (\<forall>p \<in> set (returned_projects (get_projects env ps q)). p_isFeatured p))"
proof -
  have a: "f_isFeatured (build_query q) = (if q_featured q = Some ''true'' then Some True else None)"
    by (simp add: build_query_def no_filter_def Let_def)
  have b: "build_query q = build_query (q\<lparr>q_featured := None\<rparr>)" if "q_featured q \<noteq> Some ''true''"
    using that by (simp add: build_query_def Let_def)
  have c: "projects_handler env ps q = projects_handler env ps (q\<lparr>q_featured := None\<rparr>)"
    if "q_featured q \<noteq> Some ''true''"
    using b[OF that] by (simp add: projects_handler_def page_of_def limit_of_def)
  have d: "found = filter (\<lambda>p. p_isPublished p \<and> other_filters env q p) ps \<and>
      returned_projects (get_projects env ps q) =
        take (nat (limit_of q)) (drop (nat ((page_of q - 1) * limit_of q)) (sort_projects found))"
    if "q_featured q \<noteq> Some ''true''" and "validatePagination env q = None"
      and "pagination_in_range q"
      and "project_find (text_match env) (build_query q) ps = Inr found" for found
    using found_without_featured[OF that(1,4)] handler_answer[OF that(2,4,3)]
    by (simp add: returned_projects_def json_def)
  have e: "p_isFeatured p"
    if t: "q_featured q = Some ''true''" and m: "p \<in> set (returned_projects (get_projects env ps q))" for p
  proof (cases "validatePagination env q")
    case (Some errors)
    with m show ?thesis
      by (simp add: get_projects_def returned_projects_def status_json_def)
  next
    case None
    show ?thesis
    proof (cases "project_find (text_match env) (build_query q) ps")
      case (Inl err)
      with m None show ?thesis
        by (simp add: get_projects_def projects_handler_def returned_projects_def
            server_error_def status_json_def Let_def)
    next
      case found: (Inr found)
      show ?thesis
      proof (cases "skip_docs ((page_of q - 1) * limit_of q) (sort_projects found)")
        case (Inl err)
        with m None found show ?thesis
          by (simp add: get_projects_def projects_handler_def returned_projects_def
              server_error_def status_json_def Let_def)
      next
        case (Inr rest)
        with m None found have "p \<in> set (limit_docs (limit_of q) rest)"
          by (simp add: get_projects_def projects_handler_def returned_projects_def
              json_def Let_def)
        then have "p \<in> set found"
          using set_limit_docs[of "limit_of q" rest] set_skip_docs[OF Inr]
          by (auto simp: set_sort_projects)
        moreover have "f_isFeatured (build_query q) = Some True"
          using a t by simp
        ultimately show ?thesis
          using project_find_featured[OF found] by blast
      qed
    qed
  qed
  show ?thesis using a b c d e by blast
qed

text \<open>
  With \<^verbatim>\<open>featured=false\<close> the listing of the sample store returns the published projects
  \<open>b\<close>, which is not featured, and \<open>a\<close>, which is.
\<close>

theorem featured_filter_only_for_true_witness:
  "q_featured (no_query\<lparr>q_featured := Some ''false''\<rparr>) \<noteq> Some ''true'' \<and>
   validatePagination sample_env (no_query\<lparr>q_featured := Some ''false''\<rparr>) = None \<and>
   pagination_in_range (no_query\<lparr>q_featured := Some ''false''\<rparr>) \<and>
   f_isFeatured (build_query (no_query\<lparr>q_featured := Some ''false''\<rparr>)) = None \<and>
   returned_projects (get_projects sample_env sample_projects (no_query\<lparr>q_featured := Some ''false''\<rparr>)) =
     [sample_project 2 ''b'' False True, sample_project 1 ''a'' True True] \<and>
   p_isFeatured (sample_project 1 ''a'' True True) \<and>
   \<not> p_isFeatured (sample_project 2 ''b'' False True) \<and>
   f_isFeatured (build_query (no_query\<lparr>q_featured := Some ''true''\<rparr>)) = Some True"
proof -
  let ?q = "no_query\<lparr>q_featured := Some ''false''\<rparr>"
  have h: "q_featured ?q \<noteq> Some ''true''" by (simp add: no_query_def)
  have v: "validatePagination sample_env ?q = None" by code_simp
  have r: "pagination_in_range ?q" by code_simp
  have f: "project_find (text_match sample_env) (build_query ?q) sample_projects =
      Inr [sample_project 1 ''a'' True True, sample_project 2 ''b'' False True]"
    by code_simp
  have pl: "page_of ?q = 1" "limit_of ?q = 10" by code_simp+
  have s: "take 10 (sort_projects [sample_project 1 ''a'' True True, sample_project 2 ''b'' False True]) =
      [sample_project 2 ''b'' False True, sample_project 1 ''a'' True True]"
    by code_simp
  note T = featured_filter_only_for_true[of ?q sample_env sample_projects]
  have a: "f_isFeatured (build_query ?q) = None"
    using conjunct1[OF T] h by simp
  have b: "returned_projects (get_projects sample_env sample_projects ?q) =
      [sample_project 2 ''b'' False True, sample_project 1 ''a'' True True]"
    using conjunct1[OF conjunct2[OF conjunct2[OF T]]] h v r f pl s by simp
  have c: "f_isFeatured (build_query (no_query\<lparr>q_featured := Some ''true''\<rparr>)) = Some True"
    by code_simp
  have d: "p_isFeatured (sample_project 1 ''a'' True True)"
    "\<not> p_isFeatured (sample_project 2 ''b'' False True)"
    by (simp_all add: sample_project_def)
  show ?thesis using h v r a b c d by blast
qed



text \<open>
  The range of the limit is the middleware's to check: the handler replaces \<^verbatim>\<open>NaN\<close> and
  \<^verbatim>\<open>0\<close> by its defaults and keeps a negative number, as its answer shows when the
  middleware passes everything on.
\<close>

lemma handler_keeps_negative_limit:
  "get_projects sample_env [sample_project 1 ''a'' True True] (no_query\<lparr>q_limit := Some ''-5''\<rparr>) =
     json (ProjectsPage [sample_project 1 ''a'' True True]
       \<lparr>pg_page = 1, pg_limit = - 5, pg_total = 1, pg_pages = 0\<rparr>)"
  by code_simp

section \<open>The skill router\<close>

text \<open>
  Claim C9. \<^verbatim>\<open>GET /skills/:id\<close> takes no credentials and returns the stored skill with the
  given id whatever its visibility flag is; a hidden skill is in no answer of the public
  listing \<^verbatim>\<open>GET /skills\<close>. Ids are unique in the store.
\<close>

theorem hidden_skill_by_id:
  assumes "s \<in> set ds" and "distinct (map s_id ds)" and "cast_oid sid = Some (s_id s)"
  shows "get_skill ds sid = json (SkillBody s) \<and>
    (\<not> s_isVisible s \<longrightarrow> s \<notin> set (returned_skills (get_skills env ds category sort_param)))"
proof -
  have a: "get_skill ds sid = json (SkillBody s)"
    using assms by (simp add: get_skill_def find_by_id)
  have b: "x \<in> set (returned_skills (get_skills env ds category sort_param)) \<Longrightarrow> s_isVisible x" for x
    by (auto simp: get_skills_def returned_skills_def json_def server_error_def status_json_def
        Let_def split: option.splits if_splits)
  show ?thesis using a b by blast
qed

text \<open>A hidden skill is returned by its id and is missing from the public listing.\<close>

theorem hidden_skill_by_id_witness:
  "(sample_skill 2 ''Perl'' ''backend'')\<lparr>s_isVisible := False\<rparr> \<in>
      set [sample_skill 1 ''React'' ''frontend'', (sample_skill 2 ''Perl'' ''backend'')\<lparr>s_isVisible := False\<rparr>] \<and>
   get_skill [sample_skill 1 ''React'' ''frontend'', (sample_skill 2 ''Perl'' ''backend'')\<lparr>s_isVisible := False\<rparr>]
      ''000000000000000000000002'' = json (SkillBody ((sample_skill 2 ''Perl'' ''backend'')\<lparr>s_isVisible := False\<rparr>)) \<and>
   returned_skills (get_skills sample_env
      [sample_skill 1 ''React'' ''frontend'', (sample_skill 2 ''Perl'' ''backend'')\<lparr>s_isVisible := False\<rparr>] None None) =
      [sample_skill 1 ''React'' ''frontend'']"
proof -
  let ?h = "(sample_skill 2 ''Perl'' ''backend'')\<lparr>s_isVisible := False\<rparr>"
  let ?ds = "[sample_skill 1 ''React'' ''frontend'', ?h]"
  have m: "?h \<in> set ?ds" by simp
  have d: "distinct (map s_id ?ds)" by code_simp
  have c: "cast_oid ''000000000000000000000002'' = Some (s_id ?h)" by code_simp
  have l: "returned_skills (get_skills sample_env ?ds None None) = [sample_skill 1 ''React'' ''frontend'']"
    by code_simp
  show ?thesis
    using hidden_skill_by_id[OF m d c, of sample_env None None] m l by simp
qed

text \<open>
  Claim C4. A bulk request whose array has an element without a name or without a category
  leaves the store as it was: the whole array is checked before the first insert. The
  answer is 400 for an admin (401 or 403 for any other caller).
\<close>

theorem bulk_rejected_before_insert:
  assumes "\<exists>b \<in> set xs. \<not> truthy (b_name b) \<or> \<not> truthy (b_category b)"
  shows "snd (bulk_create_skills env st a (Some xs)) = st \<and>
    res_status (fst (bulk_create_skills env st a (Some xs))) \<in> {400, 401, 403} \<and>
    (\<forall>u. auth env a = Inr u \<and> u_role u = ''admin'' \<longrightarrow>
       res_status (fst (bulk_create_skills env st a (Some xs))) = 400)"
proof -
  obtain r where r: "validate_bulk xs = Inl r"
    using validate_bulk_rejects[OF assms] by blast
  have s: "res_status r = 400" using validate_bulk_status[OF r] .
  have ne: "xs \<noteq> []" using assms by auto
  then obtain y ys where xs: "xs = y # ys" by (cases xs) auto
  have au: "auth env a = Inl e \<Longrightarrow> res_status e = 401" for e
    by (auto simp: auth_def status_json_def split: option.splits)
  show ?thesis
  proof (cases "auth env a")
    case (Inl e)
    then show ?thesis using au[OF Inl] by (simp add: bulk_create_skills_def)
  next
    case (Inr u)
    then show ?thesis using r s unfolding xs
      by (simp add: bulk_create_skills_def status_json_def)
  qed
qed

text \<open>Three complete elements and one without a category: 400, and nothing is stored.\<close>

theorem bulk_rejected_before_insert_witness:
  "(\<exists>b \<in> set [named ''a'' ''tools'', named ''b'' ''tools'', named ''c'' ''tools'', no_body\<lparr>b_name := Some ''d''\<rparr>].
      \<not> truthy (b_name b) \<or> \<not> truthy (b_category b)) \<and>
   snd (bulk_create_skills sample_env empty_store (Some ''Bearer admin-token'')
     (Some [named ''a'' ''tools'', named ''b'' ''tools'', named ''c'' ''tools'', no_body\<lparr>b_name := Some ''d''\<rparr>])) = empty_store \<and>
   res_status (fst (bulk_create_skills sample_env empty_store (Some ''Bearer admin-token'')
     (Some [named ''a'' ''tools'', named ''b'' ''tools'', named ''c'' ''tools'', no_body\<lparr>b_name := Some ''d''\<rparr>]))) = 400"
proof -
  let ?xs = "[named ''a'' ''tools'', named ''b'' ''tools'', named ''c'' ''tools'', no_body\<lparr>b_name := Some ''d''\<rparr>]"
  have h: "\<exists>b \<in> set ?xs. \<not> truthy (b_name b) \<or> \<not> truthy (b_category b)"
    by (simp add: no_body_def)
  have a: "auth sample_env (Some ''Bearer admin-token'') = Inr \<lparr>u_id = 1, u_role = ''admin''\<rparr>"
    by code_simp
  show ?thesis
    using bulk_rejected_before_insert[OF h, of sample_env empty_store "Some ''Bearer admin-token''"] h a
    by simp
qed

subsection \<open>The duplicate check\<close>

text \<open>
  For a name and a category without syntax characters the expression built from them
  matches exactly the strings that are equal to them up to letter case, and a create
  request for a stored pair is refused with 400.
\<close>

lemma parse_plain:
  "is_plain s \<Longrightarrow> parse_terms s = Some (map (\<lambda>c. (RxChar c, One)) s)"
proof (induction s rule: parse_terms.induct)
  case 1
  then show ?case by simp
next
  case (2 c)
  then show ?case by (simp add: is_plain_def atom_of_def)
next
  case (3 c d cs)
  from "3.prems" have c: "\<not> is_quant c" "c \<noteq> CHR ''.''" and d: "\<not> is_quant d"
    and rest: "is_plain (d # cs)"
    by (simp_all add: is_plain_def)
  from "3.IH"(3)[OF c(1) d rest] c d show ?case
    by (simp add: atom_of_def cons_term_def)
qed

lemma match_plain:
  "rx_match (map (\<lambda>c. (RxChar c, One)) p) s \<longleftrightarrow> lower s = lower p"
proof (induction p arbitrary: s)
  case Nil
  then show ?case by (simp add: lower_def)
next
  case (Cons c p)
  then show ?case
    by (cases s) (auto simp: lower_def atom_ok_def)
qed

lemma plain_regex:
  "is_plain p \<Longrightarrow> anchored_regex env p = Some (\<lambda>s. lower s = lower p)"
proof -
  assume p: "is_plain p"
  then have "\<not> list_ex is_other_syntax p"
    by (auto simp: is_plain_def list_ex_iff)
  then show ?thesis
    using parse_plain[OF p] by (simp add: anchored_regex_def match_plain fun_eq_iff)
qed

lemma plain_duplicate_found:
  assumes "is_plain name" and "is_plain category"
  shows "find_duplicate env except name category ds =
    Some (find (\<lambda>s. opt_holds except (\<lambda>i. s_id s \<noteq> i) \<and>
                    lower (s_name s) = lower name \<and> lower (s_category s) = lower category) ds)"
  using assms by (simp add: find_duplicate_def plain_regex)

lemma create_plain_duplicate_conflicts:
  assumes "auth env a = Inr u" and "u_role u = ''admin''"
    and "create_rules b = []"
    and "b_name b = Some n" and "b_category b = Some c"
    and "is_plain (trim n)" and "is_plain (trim c)"
    and "s \<in> set (docs st)" and "lower (s_name s) = lower (trim n)"
    and "lower (s_category s) = lower (trim c)"
  shows "create_skill env st a b =
    (status_json 400 (Message ''Skill with this name already exists in this category''), st)"
proof -
  have "find (\<lambda>x. lower (s_name x) = lower (trim n) \<and> lower (s_category x) = lower (trim c)) (docs st) \<noteq> None"
    using assms(8-10) by (auto simp: find_None_iff)
  then obtain e where "find (\<lambda>x. lower (s_name x) = lower (trim n) \<and> lower (s_category x) = lower (trim c)) (docs st) = Some e"
    by auto
  then have "find_duplicate env None (trim n) (trim c) (docs st) = Some (Some e)"
    using plain_duplicate_found[OF assms(6,7), of env None "docs st"] by (simp add: opt_holds_def)
  then show ?thesis
    using assms(1-5) by (simp add: create_skill_def sanitize_def Let_def)
qed

text \<open>
  Claim C3 fails on names that hold a quantifier. The name is put into the expression as
  it is, so \<^verbatim>\<open>a+\<close> becomes \<^verbatim>\<open>/^a+$/i\<close>, which does not match the stored name \<^verbatim>\<open>a+\<close>.
  The first create of (\<^verbatim>\<open>a+\<close>, \<^verbatim>\<open>tools\<close>) succeeds; the second, for (\<^verbatim>\<open>A+\<close>, \<^verbatim>\<open>tools\<close>),
  passes the duplicate check and goes on to the save: with a unique index on the pair it
  ends as 500, without one as 201 with both documents stored. Neither is the 400 of a
  conflict.
\<close>

theorem create_twice_with_quantifier:
  "create_skill sample_env empty_store (Some ''Bearer admin-token'') (named ''a+'' ''tools'') =
     (status_json 201 (SkillBody (sample_skill 1 ''a+'' ''tools'')),
      \<lparr>docs = [sample_skill 1 ''a+'' ''tools''], next_oid = 2\<rparr>) \<and>
   create_skill sample_env \<lparr>docs = [sample_skill 1 ''a+'' ''tools''], next_oid = 2\<rparr>
       (Some ''Bearer admin-token'') (named ''A+'' ''tools'') =
     (server_error ''Server error while creating skill'',
      \<lparr>docs = [sample_skill 1 ''a+'' ''tools''], next_oid = 2\<rparr>) \<and>
   create_skill (sample_env\<lparr>skill_collide := (\<lambda>a b. False)\<rparr>)
       \<lparr>docs = [sample_skill 1 ''a+'' ''tools''], next_oid = 2\<rparr>
       (Some ''Bearer admin-token'') (named ''A+'' ''tools'') =
     (status_json 201 (SkillBody (sample_skill 2 ''A+'' ''tools'')),
      \<lparr>docs = [sample_skill 1 ''a+'' ''tools'', sample_skill 2 ''A+'' ''tools''], next_oid = 3\<rparr>)"
  by code_simp

text \<open>The second create is not answered 400, with or without the unique index.\<close>

theorem create_twice_with_quantifier_witness:
  "res_status (fst (create_skill sample_env \<lparr>docs = [sample_skill 1 ''a+'' ''tools''], next_oid = 2\<rparr>
       (Some ''Bearer admin-token'') (named ''A+'' ''tools''))) = 500 \<and>
   res_status (fst (create_skill (sample_env\<lparr>skill_collide := (\<lambda>a b. False)\<rparr>)
       \<lparr>docs = [sample_skill 1 ''a+'' ''tools''], next_oid = 2\<rparr>
       (Some ''Bearer admin-token'') (named ''A+'' ''tools''))) = 201"
  using create_twice_with_quantifier by (simp add: server_error_def status_json_def)

text \<open>
  Claim C7 fails for the same reason. Renaming skill 2 to \<^verbatim>\<open>a.b\<close> is refused with 400
  because \<^verbatim>\<open>/^a.b$/i\<close> matches the name \<^verbatim>\<open>axb\<close> of skill 1, although no other skill holds
  the pair (\<^verbatim>\<open>a.b\<close>, \<^verbatim>\<open>tools\<close>).
\<close>

theorem update_conflicts_with_no_holder:
  "update_skill sample_env
      \<lparr>docs = [sample_skill 1 ''axb'' ''tools'', sample_skill 2 ''zzz'' ''tools''], next_oid = 3\<rparr>
      (Some ''Bearer admin-token'') ''000000000000000000000002'' (no_body\<lparr>b_name := Some ''a.b''\<rparr>) =
     (status_json 400 (Message ''Another skill with this name exists in this category''),
      \<lparr>docs = [sample_skill 1 ''axb'' ''tools'', sample_skill 2 ''zzz'' ''tools''], next_oid = 3\<rparr>) \<and>
   same_pair (sample_skill 1 ''axb'' ''tools'') (sample_skill 2 ''a.b'' ''tools'') = False"
  by code_simp

text \<open>The answer to the rename is 400 and the store keeps both skills as they were.\<close>

theorem update_conflicts_with_no_holder_witness:
  "res_status (fst (update_skill sample_env
      \<lparr>docs = [sample_skill 1 ''axb'' ''tools'', sample_skill 2 ''zzz'' ''tools''], next_oid = 3\<rparr>
      (Some ''Bearer admin-token'') ''000000000000000000000002'' (no_body\<lparr>b_name := Some ''a.b''\<rparr>))) = 400 \<and>
   docs (snd (update_skill sample_env
      \<lparr>docs = [sample_skill 1 ''axb'' ''tools'', sample_skill 2 ''zzz'' ''tools''], next_oid = 3\<rparr>
      (Some ''Bearer admin-token'') ''000000000000000000000002'' (no_body\<lparr>b_name := Some ''a.b''\<rparr>))) =
     [sample_skill 1 ''axb'' ''tools'', sample_skill 2 ''zzz'' ''tools'']"
  using update_conflicts_with_no_holder by (simp add: status_json_def)

section \<open>Authentication and role checks on the admin-only routes\<close>

text \<open>
  Claim C1, as the routes have it. Every admin-only route answers 401 to a request without
  an Authorization header and leaves the store as it was. With a valid token of a
  non-admin identity, the skill routes admin list-all, delete and bulk create answer 403;
  skill create and skill update answer 403 when the body passes the field rules and 400
  when it does not, the rules being run before the handler checks the role.
\<close>

theorem admin_routes_unauthenticated_or_forbidden:
  "(res_status (fst (admin_route env d None req)) = 401 \<and> snd (admin_route env d None req) = d) \<and>
   (verify env h = Some u \<longrightarrow> u_role u \<noteq> ''admin'' \<longrightarrow>
      res_status (fst (admin_route env d (Some h) SkillAdminAll)) = 403 \<and>
      res_status (fst (admin_route env d (Some h) (SkillDelete i))) = 403 \<and>
      res_status (fst (admin_route env d (Some h) (SkillBulk xs))) = 403 \<and>
      res_status (fst (admin_route env d (Some h) (SkillCreate b))) =
        (if create_rules b = [] then 403 else 400) \<and>
      res_status (fst (admin_route env d (Some h) (SkillUpdate i b))) =
        (if update_rules b = [] then 403 else 400))"
proof -
  have a: "res_status (fst (admin_route env d None req)) = 401 \<and> snd (admin_route env d None req) = d"
    by (cases req)
      (simp_all add: on_projects_def on_skills_def create_project_def update_project_def
        delete_project_def admin_all_projects_def admin_all_skills_def create_skill_def
        update_skill_def delete_skill_def bulk_create_skills_def auth_missing status_json_def)
  have b: "res_status (fst (admin_route env d (Some h) SkillAdminAll)) = 403 \<and>
      res_status (fst (admin_route env d (Some h) (SkillDelete i))) = 403 \<and>
      res_status (fst (admin_route env d (Some h) (SkillBulk xs))) = 403 \<and>
      res_status (fst (admin_route env d (Some h) (SkillCreate b))) =
        (if create_rules b = [] then 403 else 400) \<and>
      res_status (fst (admin_route env d (Some h) (SkillUpdate i b))) =
        (if update_rules b = [] then 403 else 400)"
    if "verify env h = Some u" and "u_role u \<noteq> ''admin''"
    using that
    by (simp add: on_skills_def admin_all_skills_def create_skill_def update_skill_def
        delete_skill_def bulk_create_skills_def auth_valid status_json_def Let_def)
  show ?thesis using a b by blast
qed

text \<open>
  A project create without a header is answered 401; with the token of a plain user, a
  bulk create and a well-formed skill create are answered 403.
\<close>

theorem admin_routes_unauthenticated_or_forbidden_witness:
  "res_status (fst (admin_route sample_env sample_db None (ProjectCreate (sample_project 1 ''a'' True True)))) = 401 \<and>
   verify sample_env ''Bearer user-token'' = Some \<lparr>u_id = 2, u_role = ''user''\<rparr> \<and>
   u_role \<lparr>u_id = 2, u_role = ''user''\<rparr> \<noteq> ''admin'' \<and>
   res_status (fst (admin_route sample_env sample_db (Some ''Bearer user-token'') (SkillBulk None))) = 403 \<and>
   res_status (fst (admin_route sample_env sample_db (Some ''Bearer user-token'')
     (SkillCreate (named ''React'' ''frontend'')))) = 403"
proof -
  have v: "verify sample_env ''Bearer user-token'' = Some \<lparr>u_id = 2, u_role = ''user''\<rparr>"
    by code_simp
  have r: "u_role \<lparr>u_id = 2, u_role = ''user''\<rparr> \<noteq> ''admin''"
    by simp
  have c: "create_rules (named ''React'' ''frontend'') = []"
    by code_simp
  show ?thesis
    using admin_routes_unauthenticated_or_forbidden
      [of sample_env sample_db "ProjectCreate (sample_project 1 ''a'' True True)"
        "''Bearer user-token''" "\<lparr>u_id = 2, u_role = ''user''\<rparr>" "[]" None
        "named ''React'' ''frontend''"] v r c
    by simp
qed

text \<open>
  Claim C1 as stated, 403 for every valid non-admin token, does not hold: a skill create
  with an empty body is answered 400 by the field rules before the role is looked at.
\<close>

theorem non_admin_invalid_body_is_400:
  "sample_verify ''Bearer user-token'' = Some \<lparr>u_id = 2, u_role = ''user''\<rparr> \<and>
   res_status (fst (admin_route sample_env sample_db (Some ''Bearer user-token'')
     (SkillCreate no_body))) = 400 \<and>
   res_status (fst (admin_route sample_env sample_db (Some ''Bearer user-token'')
     (SkillCreate no_body))) \<noteq> 403"
  by code_simp

text \<open>
  The handlers of the project routes do not look at the role at all: once the token is
  valid, a create request goes through for any identity.
\<close>

lemma project_create_has_no_role_check:
  assumes "verify env h = Some u" and "validateProject env b = []"
    and "check_save (project_valid env) (project_collide env) (docs st) (b\<lparr>p_id := next_oid st\<rparr>) = None"
  shows "res_status (fst (create_project env st (Some h) b)) = 201"
  using assms by (simp add: create_project_def auth_valid status_json_def Let_def)

end
